theory Spec2Isabelle
  imports Main "HOL-Library.Sublist" "HOL-Library.Multiset" "HOL-Library.Word"
begin

section \<open>Scale-in helpers of the stateful target plugin (package utils)\<close>

text \<open>
  A shallow embedding of the scale-in file of package \<open>utils\<close>:
  \<open>RunPreScaleInTasks\<close>, \<open>identifyTargets\<close>, \<open>getRemoteIDMap\<close>, \<open>filterBusyNodes\<close>,
  \<open>drainNodes\<close>, \<open>drainNode\<close>, \<open>monitorNodeDrain\<close> and \<open>filterOutNodeID\<close>.

  Go returns \<open>(value, err)\<close> pairs; where the value is still read when \<open>err\<close> is set the model
  keeps the pair (\<open>'a \<times> error option\<close>, a nil slice being \<open>[]\<close>), and a collaborator whose
  value is dropped on error returns a sum (\<open>Inl\<close> the error).
  Debug, info and warning log calls are left out, except in \<open>monitorNodeDrain\<close>, whose
  only effect besides its result is the log.
\<close>

subsection \<open>Data\<close>

text \<open>\<open>api.NodeListStub\<close> of the Nomad client library: the identifier, the class attribute
  a pool is selected by, and the creation index.\<close>

record NodeListStub =
  ID :: string
  NodeClass :: string
  CreateIndex :: "64 word"

text \<open>\<open>api.Node\<close>, the full record read by the provider's identification function.\<close>

record Node =
  Attributes :: "string \<rightharpoonup> string"

text \<open>\<open>NodeID{NomadID, RemoteID}\<close>, as built in \<open>getRemoteIDMap\<close> and \<open>filterBusyNodes\<close>.\<close>

record NodeID =
  NomadID :: string
  RemoteID :: string

text \<open>\<open>PoolIdentifier{IdentifierKey, Value}\<close>, as built in the plugin's request test.\<close>

record PoolIdentifier =
  IdentifierKey :: string
  Value :: string

type_synonym RemoteProvider = string

text \<open>Modelled from the spec: the declaration of \<open>NodeIDStrategy\<close> and of its constants is
  not among the sources. It is an enumeration of selection strategies of which exactly one,
  newest-creation-index first, is implemented; every other value is unsupported. The second
  constructor stands for any other value of the type.\<close>

datatype NodeIDStrategy = IDStrategyNewestCreateIndex | IDStrategyOther string

text \<open>\<open>ScaleInReq\<close>, with the fields the plugin's request test sets. \<open>Num\<close> is a Go \<open>int\<close>
  and \<open>DrainDeadline\<close> a \<open>time.Duration\<close> (a count of nanoseconds). Both are integers
  here: the durations are only passed on, and the one computation on \<open>Num\<close>, \<open>num-1\<close> in
  \<open>identifyTargets\<close>, wraps in Go only at the least value of \<open>int\<close>.\<close>

record ScaleInReq =
  Num :: int
  DrainDeadline :: int
  PoolIdentifier :: PoolIdentifier
  RemoteProvider :: RemoteProvider
  NodeIDStrategy :: NodeIDStrategy

text \<open>
  Errors. \<open>ErrorString s\<close> is \<open>errors.New(s)\<close>, and also any plain error of a collaborator
  with message \<open>s\<close>. \<open>Errorf f args\<close> is \<open>fmt.Errorf(f, args...)\<close>: the format string of the
  source and its operands, not rendered. \<open>MultiError es\<close> is a \<open>*multierror.Error\<close> whose
  \<open>Errors\<close> field is \<open>es\<close>.
\<close>

datatype error =
    ErrorString string
  | Errorf string "fmt_arg list"
  | MultiError "error list"
and fmt_arg =
    ArgString string
  | ArgError error
  | ArgStrategy NodeIDStrategy

text \<open>\<open>multierror.Append(err, e)\<close> with one new error: a multi-error operand is flattened
  into its entries, any other error is one entry; a nil \<open>err\<close> starts a fresh multi-error and
  a plain \<open>err\<close> becomes the first entry.\<close>

fun wrapped_errors :: "error \<Rightarrow> error list" where
  "wrapped_errors (MultiError es) = es"
| "wrapped_errors e = [e]"

fun multierror_Append :: "error option \<Rightarrow> error \<Rightarrow> error" where
  "multierror_Append None e = MultiError (wrapped_errors e)"
| "multierror_Append (Some (MultiError es)) e = MultiError (es @ wrapped_errors e)"
| "multierror_Append (Some err) e = MultiError (err # wrapped_errors e)"

text \<open>\<open>(*Error).ErrorOrNil\<close>: nil for a nil receiver and for one without entries.\<close>

fun ErrorOrNil :: "error option \<Rightarrow> error option" where
  "ErrorOrNil None = None"
| "ErrorOrNil (Some (MultiError [])) = None"
| "ErrorOrNil (Some e) = Some e"

text \<open>\<open>api.MonitorMessage\<close> and its levels.\<close>

datatype MonitorMsgLevel =
  MonitorMsgLevelNormal | MonitorMsgLevelInfo | MonitorMsgLevelWarn | MonitorMsgLevelError

record MonitorMessage =
  Level :: MonitorMsgLevel
  Message :: string

text \<open>What a \<open>range\<close> loop sees of a receive channel: it is closed, or it delivers a message
  and goes on. The type is coinductive, so a channel that is never closed is a value of it.\<close>

codatatype 'a channel = Closed | Recv 'a "'a channel"

text \<open>A log line: level, text, key/value pairs.\<close>

datatype log_level = LogDebug | LogInfo | LogWarn

type_synonym log_entry = "log_level \<times> string \<times> (string \<times> string) list"

text \<open>The governing \<open>context.Context\<close>, read only through \<open>ctx.Err()\<close> when a monitoring loop
  ends: the value \<open>Err\<close> has at the moment the stream of the given node is closed (nil while
  the context is live, otherwise the cancellation or deadline error).\<close>

type_synonym Context = "string \<Rightarrow> error option"

text \<open>
  Everything the functions consult outside the scale-in file, for one run.
  Declarations of the package that are not among the sources are parameters:
  \<open>validate\<close> is \<open>(*ScaleInReq).validate\<close>, \<open>IdentifyNodes\<close> is
  \<open>(*PoolIdentifier).IdentifyNodes\<close>, \<open>idFuncMap\<close> is the table from remote provider to
  identification function (the function returns the identifier and the error, both read).
  \<open>curNodeID\<close> is the field of \<open>ScaleIn\<close>. The rest are the answers of the collaborators:
  \<open>Nodes().List\<close>, \<open>Nodes().Info\<close>, \<open>Nodes().UpdateDrain\<close> (the \<open>LastIndex\<close> of its
  response), \<open>Nodes().MonitorDrain\<close> and \<open>Dms().List\<close> (the \<open>Nodes\<close> map of its response).
\<close>

record env =
  validate :: "ScaleInReq \<Rightarrow> error option"
  IdentifyNodes :: "PoolIdentifier \<Rightarrow> NodeListStub list \<Rightarrow> error + NodeListStub list"
  idFuncMap :: "RemoteProvider \<rightharpoonup> (Node \<Rightarrow> string \<times> error option)"
  curNodeID :: string
  Nodes_List :: "error + NodeListStub list"
  Nodes_Info :: "string \<Rightarrow> error + Node"
  Nodes_UpdateDrain :: "string \<Rightarrow> int \<Rightarrow> error + 64 word"
  Nodes_MonitorDrain :: "string \<Rightarrow> 64 word \<Rightarrow> MonitorMessage channel"
  Dms_List :: "error + (string \<rightharpoonup> bool)"

subsection \<open>filterOutNodeID\<close>

fun filterOutNodeID_loop :: "NodeListStub list \<Rightarrow> string \<Rightarrow> NodeListStub list \<Rightarrow> NodeListStub list" where
  "filterOutNodeID_loop [] id' out = out"
| "filterOutNodeID_loop (node # n) id' out =
     (if ID node = id' then filterOutNodeID_loop n id' out
      else filterOutNodeID_loop n id' (out @ [node]))"

definition filterOutNodeID :: "NodeListStub list \<Rightarrow> string \<Rightarrow> NodeListStub list" where
  "filterOutNodeID n id' = (if id' = '''' then n else filterOutNodeID_loop n id' [])"

subsection \<open>identifyTargets\<close>

text \<open>The selection loop \<open>for i := 0; i <= num-1; i++\<close>. It is entered with
  \<open>num \<le> len(filteredNodes)\<close>, so every index it reads is in range
  (\<open>select_loop_take\<close> below).\<close>

function select_loop :: "int \<Rightarrow> int \<Rightarrow> NodeListStub list \<Rightarrow> NodeListStub list \<Rightarrow> NodeListStub list" where
  "select_loop i num filteredNodes out =
     (if i \<le> num - 1 then select_loop (i + 1) num filteredNodes (out @ [filteredNodes ! nat i])
      else out)"
  by pat_completeness auto
termination
  by (relation "measure (\<lambda>(i, num, filteredNodes, out). nat (num - i))") auto

declare select_loop.simps [simp del]

definition identifyTargets ::
  "env \<Rightarrow> int \<Rightarrow> PoolIdentifier \<Rightarrow> NodeIDStrategy \<Rightarrow> NodeListStub list \<times> error option" where
  "identifyTargets e num ident strategy =
     (case Nodes_List e of
        Inl err \<Rightarrow> ([], Some (Errorf ''failed to list Nomad nodes from API: %v'' [ArgError err]))
      | Inr nodes \<Rightarrow>
          (case IdentifyNodes e ident nodes of
             Inl err \<Rightarrow> ([], Some err)
           | Inr identified \<Rightarrow>
               (let filteredNodes = filterOutNodeID identified (curNodeID e) in
                if length filteredNodes = 0
                then ([], Some (Errorf ''no nodes unfiltered for %s with value %s''
                                  [ArgString (IdentifierKey ident), ArgString (Value ident)]))
                else (case strategy of
                        IDStrategyNewestCreateIndex \<Rightarrow>
                          (let num' = (if num > int (length filteredNodes)
                                       then int (length filteredNodes) else num)
                           in (select_loop 0 num' filteredNodes [], None))
                      | _ \<Rightarrow>
                          ([], Some (Errorf ''unsupported scale in node identification strategy: %q''
                                       [ArgStrategy strategy]))))))"

subsection \<open>getRemoteIDMap\<close>

fun getRemoteIDMap_loop ::
  "env \<Rightarrow> (Node \<Rightarrow> string \<times> error option) \<Rightarrow> NodeListStub list \<Rightarrow> NodeID list \<Rightarrow> error option
     \<Rightarrow> NodeID list \<times> error option" where
  "getRemoteIDMap_loop e idFunc [] out mErr = (out, ErrorOrNil mErr)"
| "getRemoteIDMap_loop e idFunc (node # nodes) out mErr =
     (case Nodes_Info e (ID node) of
        Inl err \<Rightarrow> ([], Some err)
      | Inr nodeInfo \<Rightarrow>
          (case idFunc nodeInfo of
             (id', err) \<Rightarrow>
               getRemoteIDMap_loop e idFunc nodes
                 (out @ [\<lparr>NomadID = ID node, RemoteID = id'\<rparr>])
                 (case err of Some x \<Rightarrow> Some (multierror_Append mErr x) | None \<Rightarrow> mErr)))"

definition getRemoteIDMap ::
  "env \<Rightarrow> NodeListStub list \<Rightarrow> RemoteProvider \<Rightarrow> NodeID list \<times> error option" where
  "getRemoteIDMap e nodes remoteProvider =
     (case idFuncMap e remoteProvider of
        None \<Rightarrow> ([], Some (Errorf ''remote provider ID function not found: %s''
                             [ArgString remoteProvider]))
      | Some idFunc \<Rightarrow> getRemoteIDMap_loop e idFunc nodes [] None)"

subsection \<open>filterBusyNodes\<close>

fun filterBusyNodes_loop :: "(string \<rightharpoonup> bool) \<Rightarrow> NodeID list \<Rightarrow> NodeID list \<Rightarrow> NodeID list" where
  "filterBusyNodes_loop nodesStatus [] out = out"
| "filterBusyNodes_loop nodesStatus (node # nodes) out =
     (case nodesStatus (NomadID node) of
        Some busy \<Rightarrow>
          (if busy then filterBusyNodes_loop nodesStatus nodes out
           else filterBusyNodes_loop nodesStatus nodes
                  (out @ [\<lparr>NomadID = NomadID node, RemoteID = RemoteID node\<rparr>]))
      | None \<Rightarrow>
          filterBusyNodes_loop nodesStatus nodes
            (out @ [\<lparr>NomadID = NomadID node, RemoteID = RemoteID node\<rparr>]))"

definition filterBusyNodes :: "env \<Rightarrow> NodeID list \<Rightarrow> NodeID list \<times> error option" where
  "filterBusyNodes e nodes =
     (case Dms_List e of
        Inl err \<Rightarrow> ([], Some err)
      | Inr nodesStatus \<Rightarrow> (filterBusyNodes_loop nodesStatus nodes [], ErrorOrNil None))"

subsection \<open>monitorNodeDrain, drainNode, drainNodes\<close>

text \<open>The loop \<open>for msg := range ch\<close> of \<open>monitorNodeDrain\<close>. It ends when the channel is
  closed or at an error message; on a channel that does neither it never returns, which is
  the value \<open>None\<close>. The result is the log written and the error returned.\<close>

partial_function (option) monitor_range ::
  "Context \<Rightarrow> string \<Rightarrow> MonitorMessage channel \<Rightarrow> log_entry list
     \<Rightarrow> (log_entry list \<times> error option) option" where
  "monitor_range ctx nodeID ch logs =
     (case ch of
        Closed \<Rightarrow> Some (logs, ctx nodeID)
      | Recv msg rest \<Rightarrow>
          (case Level msg of
             MonitorMsgLevelInfo \<Rightarrow>
               monitor_range ctx nodeID rest
                 (logs @ [(LogInfo, ''received node drain message'',
                           [(''node_id'', nodeID), (''msg'', Message msg)])])
           | MonitorMsgLevelWarn \<Rightarrow>
               monitor_range ctx nodeID rest
                 (logs @ [(LogWarn, ''received node drain message'',
                           [(''node_id'', nodeID), (''msg'', Message msg)])])
           | MonitorMsgLevelError \<Rightarrow>
               Some (logs, Some (Errorf ''received error while draining node: %s''
                                   [ArgString (Message msg)]))
           | _ \<Rightarrow>
               monitor_range ctx nodeID rest
                 (logs @ [(LogDebug, ''received node drain message'',
                           [(''node_id'', nodeID), (''msg'', Message msg)])])))"

declare monitor_range.simps [code]

definition monitorNodeDrain ::
  "env \<Rightarrow> Context \<Rightarrow> string \<Rightarrow> 64 word \<Rightarrow> (log_entry list \<times> error option) option" where
  "monitorNodeDrain e ctx nodeID index =
     monitor_range ctx nodeID (Nodes_MonitorDrain e nodeID index) []"

text \<open>\<open>drainNode\<close>: \<open>None\<close> when the monitoring never returns, otherwise \<open>Some\<close> of the error
  returned (\<open>Some None\<close> is the nil error).\<close>

definition drainNode :: "env \<Rightarrow> Context \<Rightarrow> string \<Rightarrow> int \<Rightarrow> error option option" where
  "drainNode e ctx nodeID deadline =
     (case Nodes_UpdateDrain e nodeID deadline of
        Inl err \<Rightarrow> Some (Some (Errorf ''failed to drain node: %v'' [ArgError err]))
      | Inr LastIndex \<Rightarrow>
          (case monitorNodeDrain e ctx nodeID LastIndex of
             None \<Rightarrow> None
           | Some (logs, Some err) \<Rightarrow>
               Some (Some (Errorf ''context done while monitoring node drain: %v'' [ArgError err]))
           | Some (logs, None) \<Rightarrow> Some None))"

text \<open>
  \<open>drainNodes\<close> starts one goroutine per node and waits for all of them. The goroutines
  take the lock in an order the scheduler chooses: \<open>sched\<close> lists its choices, each the
  position (modulo the number left) of the next goroutine to finish among those still
  running, so that every \<open>sched\<close> is an execution and every order of completion has one.
\<close>

fun complete_order :: "nat list \<Rightarrow> 'a list \<Rightarrow> 'a list" where
  "complete_order sched [] = []"
| "complete_order [] running = running"
| "complete_order (k # sched) running =
     (let i = k mod length running
      in running ! i # complete_order sched (take i running @ drop (Suc i) running))"

text \<open>The body of one goroutine once \<open>drainNode\<close> has returned \<open>r\<close>.\<close>

fun append_result :: "error option \<Rightarrow> error option \<Rightarrow> error option" where
  "append_result result (Some err) = Some (multierror_Append result err)"
| "append_result result None = result"

definition drainNodes ::
  "env \<Rightarrow> nat list \<Rightarrow> Context \<Rightarrow> int \<Rightarrow> NodeID list \<Rightarrow> error option option" where
  "drainNodes e sched ctx deadline nodes =
     (let returned = map (\<lambda>n. drainNode e ctx (NomadID n) deadline) nodes
      in if None \<in> set returned then None
         else Some (foldl append_result None (map the (complete_order sched returned))))"

subsection \<open>RunPreScaleInTasks\<close>

definition RunPreScaleInTasks ::
  "env \<Rightarrow> nat list \<Rightarrow> Context \<Rightarrow> ScaleInReq \<Rightarrow> (NodeID list \<times> error option) option" where
  "RunPreScaleInTasks e sched ctx req =
     (case validate e req of
        Some err \<Rightarrow> Some ([], Some (Errorf ''failed to validate request: %v'' [ArgError err]))
      | None \<Rightarrow>
          (case identifyTargets e (Num req) (PoolIdentifier req) (NodeIDStrategy req) of
             (nodes, Some err) \<Rightarrow>
               Some ([], Some (Errorf ''failed to identify nodes for removal: %v'' [ArgError err]))
           | (nodes, None) \<Rightarrow>
               (case getRemoteIDMap e nodes (RemoteProvider req) of
                  (nodeIDMap, Some err) \<Rightarrow> Some ([], Some err)
                | (nodeIDMap, None) \<Rightarrow>
                    (case filterBusyNodes e nodeIDMap of
                       (nodeIDMap', err) \<Rightarrow>
                         if length nodeIDMap' = 0
                         then Some ([], Some (ErrorString ''failed to identify nodes for removal''))
                         else (case drainNodes e sched ctx (DrainDeadline req) nodeIDMap' of
                                 None \<Rightarrow> None
                               | Some (Some err) \<Rightarrow> Some ([], Some err)
                               | Some None \<Rightarrow> Some (nodeIDMap', None))))))"

section \<open>Vocabulary of the properties and a sample run\<close>

text \<open>The channel that delivers the messages of a list and then behaves as \<open>ch\<close>.\<close>

primrec deliver :: "'a list \<Rightarrow> 'a channel \<Rightarrow> 'a channel" where
  "deliver [] ch = ch"
| "deliver (m # ms) ch = Recv m (deliver ms ch)"

text \<open>A channel that delivers the same message for ever and is never closed.\<close>

primcorec repeat_msg :: "'a \<Rightarrow> 'a channel" where
  "repeat_msg m = Recv m (repeat_msg m)"

text \<open>The log line \<open>monitorNodeDrain\<close> writes for a message that is not an error.\<close>

definition drain_log :: "string \<Rightarrow> MonitorMessage \<Rightarrow> log_entry" where
  "drain_log nodeID msg =
     ((case Level msg of
         MonitorMsgLevelInfo \<Rightarrow> LogInfo
       | MonitorMsgLevelWarn \<Rightarrow> LogWarn
       | _ \<Rightarrow> LogDebug),
      ''received node drain message'', [(''node_id'', nodeID), (''msg'', Message msg)])"

text \<open>The error \<open>monitorNodeDrain\<close> returns at an error message.\<close>

definition received_error :: "MonitorMessage \<Rightarrow> error" where
  "received_error m = Errorf ''received error while draining node: %s'' [ArgString (Message m)]"

text \<open>
  A sample cluster: five nodes of class \<open>high-memory\<close> listed with creation indices
  3, 1, 4, 1, 5; a pool identified by the node class; a provider table with one
  identification function that reads an attribute of the full record; every drain accepted,
  its stream delivering one info message before it is closed; an empty busy map.
\<close>

definition stub :: "string \<Rightarrow> 64 word \<Rightarrow> NodeListStub" where
  "stub i c = \<lparr>ID = i, NodeClass = ''high-memory'', CreateIndex = c\<rparr>"

definition inventory :: "NodeListStub list" where
  "inventory = [stub ''n1'' 3, stub ''n2'' 1, stub ''n3'' 4, stub ''n4'' 1, stub ''n5'' 5]"

definition pair :: "string \<Rightarrow> NodeID" where
  "pair i = \<lparr>NomadID = i, RemoteID = ''i-'' @ i\<rparr>"

definition sample_idFunc :: "Node \<Rightarrow> string \<times> error option" where
  "sample_idFunc node =
     (case Attributes node ''unique.platform.aws.instance-id'' of
        Some v \<Rightarrow> (v, None)
      | None \<Rightarrow> ([], Some (ErrorString ''attribute not found'')))"

definition sample_info :: "string \<Rightarrow> Node" where
  "sample_info i = \<lparr>Attributes = [''unique.platform.aws.instance-id'' \<mapsto> ''i-'' @ i]\<rparr>"

definition info_msg :: "string \<Rightarrow> MonitorMessage" where
  "info_msg t = \<lparr>Level = MonitorMsgLevelInfo, Message = t\<rparr>"

definition error_msg :: "string \<Rightarrow> MonitorMessage" where
  "error_msg t = \<lparr>Level = MonitorMsgLevelError, Message = t\<rparr>"

definition quiet_msgs :: "MonitorMessage list" where
  "quiet_msgs = [info_msg ''draining'', \<lparr>Level = MonitorMsgLevelWarn, Message = ''slow''\<rparr>,
                 \<lparr>Level = MonitorMsgLevelNormal, Message = ''tick''\<rparr>]"

definition sample_env :: env where
  "sample_env =
     \<lparr>validate = (\<lambda>req. None),
      IdentifyNodes = (\<lambda>ident nodes. Inr (filter (\<lambda>n. NodeClass n = Value ident) nodes)),
      idFuncMap = [''aws_instance_id'' \<mapsto> sample_idFunc],
      curNodeID = [],
      Nodes_List = Inr inventory,
      Nodes_Info = (\<lambda>i. Inr (sample_info i)),
      Nodes_UpdateDrain = (\<lambda>i d. Inr 7),
      Nodes_MonitorDrain = (\<lambda>i index. Recv (info_msg ''drain complete'') Closed),
      Dms_List = Inr Map.empty\<rparr>"

definition sample_req :: "int \<Rightarrow> ScaleInReq" where
  "sample_req n =
     \<lparr>Num = n, DrainDeadline = 300000000000,
      PoolIdentifier = \<lparr>IdentifierKey = ''class'', Value = ''high-memory''\<rparr>,
      RemoteProvider = ''aws_instance_id'',
      NodeIDStrategy = IDStrategyNewestCreateIndex\<rparr>"

definition live :: Context where
  "live = (\<lambda>nodeID. None)"

text \<open>The errors among a list of returned errors (nil or not), in order.\<close>

primrec failed :: "error option list \<Rightarrow> error list" where
  "failed [] = []"
| "failed (r # rs) = (case r of Some err \<Rightarrow> err # failed rs | None \<Rightarrow> failed rs)"

text \<open>The entries an accumulated error stands for when \<open>multierror.Append\<close> extends it.\<close>

fun entries :: "error option \<Rightarrow> error list" where
  "entries None = []"
| "entries (Some err) = wrapped_errors err"

text \<open>The pair \<open>getRemoteIDMap\<close> emits for a node whose full record is \<open>nodeInfo\<close>.\<close>

definition resolved :: "(Node \<Rightarrow> string \<times> error option) \<Rightarrow> NodeListStub \<Rightarrow> Node \<Rightarrow> NodeID" where
  "resolved idFunc node nodeInfo = \<lparr>NomadID = ID node, RemoteID = fst (idFunc nodeInfo)\<rparr>"

text \<open>Variants of the sample cluster: node \<open>n2\<close> reported busy; the busy map not
  available; the drain stream of one node delivering an error message; the full record of
  \<open>n3\<close> without the provider attribute; the full record of \<open>n3\<close> not readable.\<close>

definition busy_env :: env where
  "busy_env = sample_env\<lparr>Dms_List := Inr [''n2'' \<mapsto> True]\<rparr>"

definition oracle_down_env :: env where
  "oracle_down_env = sample_env\<lparr>Dms_List := Inl (ErrorString ''connection refused'')\<rparr>"


definition no_attr_env :: env where
  "no_attr_env =
     sample_env\<lparr>Nodes_Info :=
       \<lambda>i. Inr (if i = ''n3'' then \<lparr>Attributes = Map.empty\<rparr> else sample_info i)\<rparr>"

definition fetch_fail_env :: env where
  "fetch_fail_env =
     sample_env\<lparr>Nodes_Info :=
       \<lambda>i. if i = ''n3'' then Inl (ErrorString ''node not found'') else Inr (sample_info i)\<rparr>"



section \<open>The loops in closed form\<close>

lemma filterOutNodeID_loop_filter:
  "filterOutNodeID_loop n id' out = out @ filter (\<lambda>node. ID node \<noteq> id') n"
  by (induction n arbitrary: out) auto

lemma filterOutNodeID_filter:
  "filterOutNodeID n id' = (if id' = [] then n else filter (\<lambda>node. ID node \<noteq> id') n)"
  by (simp add: filterOutNodeID_def filterOutNodeID_loop_filter)

lemma filterBusyNodes_loop_filter:
  "filterBusyNodes_loop st nodes out = out @ filter (\<lambda>n. st (NomadID n) \<noteq> Some True) nodes"
  by (induction nodes arbitrary: out) (auto split: option.splits)

lemma monitor_range_Closed: "monitor_range ctx nodeID Closed logs = Some (logs, ctx nodeID)"
  by (subst monitor_range.simps) simp

lemma monitor_range_Error:
  "Level m = MonitorMsgLevelError \<Longrightarrow>
   monitor_range ctx nodeID (Recv m rest) logs = Some (logs, Some (received_error m))"
  by (subst monitor_range.simps) (simp add: received_error_def)

lemma monitor_range_quiet:
  "Level m \<noteq> MonitorMsgLevelError \<Longrightarrow>
   monitor_range ctx nodeID (Recv m rest) logs =
     monitor_range ctx nodeID rest (logs @ [drain_log nodeID m])"
  by (subst monitor_range.simps) (cases "Level m"; simp add: drain_log_def)

lemma monitor_range_deliver:
  "\<forall>m \<in> set pre. Level m \<noteq> MonitorMsgLevelError \<Longrightarrow>
   monitor_range ctx nodeID (deliver pre ch) logs =
     monitor_range ctx nodeID ch (logs @ map (drain_log nodeID) pre)"
  by (induction pre arbitrary: logs) (simp_all add: monitor_range_quiet)

lemma select_loop_take:
  "0 \<le> i \<Longrightarrow> num \<le> int (length filteredNodes) \<Longrightarrow>
   select_loop i num filteredNodes out = out @ take (nat num - nat i) (drop (nat i) filteredNodes)"
proof (induction i num filteredNodes out rule: select_loop.induct)
  case (1 i num filteredNodes out)
  show ?case
  proof (cases "i \<le> num - 1")
    case True
    then have lt: "nat i < length filteredNodes" using 1 by linarith
    have step: "select_loop i num filteredNodes out =
                select_loop (i + 1) num filteredNodes (out @ [filteredNodes ! nat i])"
      using True by (subst select_loop.simps) simp
    have ih: "select_loop (i + 1) num filteredNodes (out @ [filteredNodes ! nat i]) =
              (out @ [filteredNodes ! nat i]) @
                take (nat num - nat (i + 1)) (drop (nat (i + 1)) filteredNodes)"
      using 1 True by simp
    have n1: "nat (i + 1) = Suc (nat i)" using 1 by simp
    have n2: "nat num - nat i = Suc (nat num - Suc (nat i))" using True 1 by linarith
    have "drop (nat i) filteredNodes = filteredNodes ! nat i # drop (Suc (nat i)) filteredNodes"
      using lt by (simp add: Cons_nth_drop_Suc)
    then show ?thesis using step ih n1 n2 by simp
  next
    case False
    then have "nat num - nat i = 0" using 1 by linarith
    moreover have "select_loop i num filteredNodes out = out"
      using False by (subst select_loop.simps) simp
    ultimately show ?thesis by simp
  qed
qed

lemma select_clamped:
  "select_loop 0 (if num > int (length fs) then int (length fs) else num) fs [] = take (nat num) fs"
  by (simp add: select_loop_take)

lemma identifyTargets_selected:
  assumes "Nodes_List e = Inr nodes" and "IdentifyNodes e ident nodes = Inr identified"
    and "filterOutNodeID identified (curNodeID e) \<noteq> []"
  shows "identifyTargets e num ident IDStrategyNewestCreateIndex =
           (take (nat num) (filterOutNodeID identified (curNodeID e)), None)"
  using assms by (simp add: identifyTargets_def Let_def select_clamped)

lemma identifyTargets_success:
  assumes "identifyTargets e num ident strategy = (out, None)"
  shows "\<exists>nodes identified. Nodes_List e = Inr nodes \<and> IdentifyNodes e ident nodes = Inr identified
           \<and> filterOutNodeID identified (curNodeID e) \<noteq> []
           \<and> strategy = IDStrategyNewestCreateIndex
           \<and> out = take (nat num) (filterOutNodeID identified (curNodeID e))"
  using assms
  by (auto simp: identifyTargets_def Let_def select_loop_take
           split: sum.splits if_splits NodeIDStrategy.splits)

lemma multierror_Append_entries:
  "multierror_Append acc err = MultiError (entries acc @ wrapped_errors err)"
  by (cases "(acc, err)" rule: multierror_Append.cases) auto

lemma foldl_append_result:
  "foldl append_result acc rs =
     (if failed rs = [] then acc
      else Some (MultiError (entries acc @ concat (map wrapped_errors (failed rs)))))"
proof (induction rs arbitrary: acc)
  case Nil
  then show ?case by simp
next
  case (Cons r rs)
  show ?case
  proof (cases r)
    case None
    then show ?thesis using Cons by simp
  next
    case (Some err)
    then show ?thesis using Cons by (simp add: multierror_Append_entries)
  qed
qed




lemma append_result_case:
  "(case r of Some x \<Rightarrow> Some (multierror_Append mErr x) | None \<Rightarrow> mErr) = append_result mErr r"
  by (cases r) auto

lemma getRemoteIDMap_loop_fetched:
  "map (\<lambda>node. Nodes_Info e (ID node)) nodes = map Inr infos \<Longrightarrow>
   getRemoteIDMap_loop e idFunc nodes out mErr =
     (out @ map2 (resolved idFunc) nodes infos,
      ErrorOrNil (foldl append_result mErr (map (\<lambda>i. snd (idFunc i)) infos)))"
proof (induction nodes arbitrary: infos out mErr)
  case Nil
  then show ?case by simp
next
  case (Cons node nodes)
  then obtain i is' where infos: "infos = i # is'" by (cases infos) auto
  with Cons.prems have fetch: "Nodes_Info e (ID node) = Inr i"
    and rest: "map (\<lambda>node. Nodes_Info e (ID node)) nodes = map Inr is'" by auto
  show ?case
    using Cons.IH [OF rest] fetch infos
    by (simp add: resolved_def append_result_case split: prod.splits)
qed

lemma getRemoteIDMap_loop_abort:
  assumes "map (\<lambda>node. Nodes_Info e (ID node)) pre = map Inr infos"
    and "Nodes_Info e (ID node) = Inl err"
  shows "getRemoteIDMap_loop e idFunc (pre @ node # rest) out mErr = ([], Some err)"
  using assms
proof (induction pre arbitrary: infos out mErr)
  case Nil
  then show ?case by simp
next
  case (Cons p pre)
  then obtain i is' where infos: "infos = i # is'" by (cases infos) auto
  with Cons.prems have fetch: "Nodes_Info e (ID p) = Inr i"
    and rest: "map (\<lambda>node. Nodes_Info e (ID node)) pre = map Inr is'" by auto
  show ?case using Cons.IH [OF rest Cons.prems(2)] fetch by (simp split: prod.splits)
qed

lemma getRemoteIDMap_loop_order:
  "fst (getRemoteIDMap_loop e idFunc nodes out mErr) = []
   \<or> map NomadID (fst (getRemoteIDMap_loop e idFunc nodes out mErr)) = map NomadID out @ map ID nodes"
proof (induction nodes arbitrary: out mErr)
  case Nil
  then show ?case by simp
next
  case (Cons node nodes)
  show ?case
  proof (cases "Nodes_Info e (ID node)")
    case (Inl err)
    then show ?thesis by simp
  next
    case (Inr nodeInfo)
    obtain id' err where r: "idFunc nodeInfo = (id', err)" by (cases "idFunc nodeInfo")
    show ?thesis
      using Cons.IH [of "out @ [\<lparr>NomadID = ID node, RemoteID = id'\<rparr>]"
                        "case err of Some x \<Rightarrow> Some (multierror_Append mErr x) | None \<Rightarrow> mErr"]
            Inr r by simp
  qed
qed

lemma getRemoteIDMap_order:
  "fst (getRemoteIDMap e nodes p) = []
   \<or> map NomadID (fst (getRemoteIDMap e nodes p)) = map ID nodes"
  using getRemoteIDMap_loop_order [of e _ nodes "[]" None]
  by (auto simp: getRemoteIDMap_def split: option.splits)

lemma filterBusyNodes_fst:
  "fst (filterBusyNodes e nodes) =
     (case Dms_List e of Inl err \<Rightarrow> [] | Inr st \<Rightarrow> filter (\<lambda>n. st (NomadID n) \<noteq> Some True) nodes)"
  by (simp add: filterBusyNodes_def filterBusyNodes_loop_filter split: sum.splits)

lemma filterBusyNodes_subseq: "subseq (fst (filterBusyNodes e nodes)) nodes"
  by (simp add: filterBusyNodes_fst split: sum.splits)


lemma run_cases:
  assumes "RunPreScaleInTasks e sched ctx req = Some (out, err)"
  shows "(out = [] \<and> err \<noteq> None)
       \<or> (err = None \<and> out \<noteq> []
           \<and> (\<exists>nodes nodeIDMap.
                 identifyTargets e (Num req) (PoolIdentifier req) (NodeIDStrategy req) = (nodes, None)
               \<and> getRemoteIDMap e nodes (RemoteProvider req) = (nodeIDMap, None)
               \<and> out = fst (filterBusyNodes e nodeIDMap)
               \<and> drainNodes e sched ctx (DrainDeadline req) out = Some None))"
  using assms
  by (auto simp: RunPreScaleInTasks_def split: option.splits prod.splits if_splits)

subsection \<open>The sample run, stage by stage\<close>

lemma sample_fields:
  "validate sample_env = (\<lambda>req. None)"
  "IdentifyNodes sample_env = (\<lambda>ident nodes. Inr (filter (\<lambda>n. NodeClass n = Value ident) nodes))"
  "idFuncMap sample_env = [''aws_instance_id'' \<mapsto> sample_idFunc]"
  "curNodeID sample_env = []"
  "Nodes_List sample_env = Inr inventory"
  "Nodes_Info sample_env = (\<lambda>i. Inr (sample_info i))"
  "Nodes_UpdateDrain sample_env = (\<lambda>i d. Inr 7)"
  "Nodes_MonitorDrain sample_env = (\<lambda>i index. Recv (info_msg ''drain complete'') Closed)"
  "Dms_List sample_env = Inr Map.empty"
  by (simp_all add: sample_env_def)

lemma sample_req_fields:
  "Num (sample_req n) = n"
  "NodeIDStrategy (sample_req n) = IDStrategyNewestCreateIndex"
  "RemoteProvider (sample_req n) = ''aws_instance_id''"
  by (simp_all add: sample_req_def)

lemma inventory_class: "filter (\<lambda>n. NodeClass n = ''high-memory'') inventory = inventory"
  by (simp add: inventory_def stub_def)

lemma sample_targets:
  assumes "Nodes_List e = Nodes_List sample_env" "IdentifyNodes e = IdentifyNodes sample_env"
    "curNodeID e = curNodeID sample_env"
  shows "identifyTargets e n (PoolIdentifier (sample_req m)) IDStrategyNewestCreateIndex
           = (take (nat n) inventory, None)"
proof -
  have a: "Nodes_List e = Inr inventory" using assms by (simp add: sample_fields)
  have b: "IdentifyNodes e (PoolIdentifier (sample_req m)) inventory = Inr inventory"
    using assms by (simp add: sample_fields sample_req_def inventory_class)
  have c: "filterOutNodeID inventory (curNodeID e) \<noteq> []"
    using assms by (simp add: sample_fields filterOutNodeID_def inventory_def)
  have d: "filterOutNodeID inventory (curNodeID e) = inventory"
    using assms by (simp add: sample_fields filterOutNodeID_def)
  show ?thesis using identifyTargets_selected [OF a b c] d by simp
qed

lemma take_inventory:
  "take 2 inventory = [stub ''n1'' 3, stub ''n2'' 1]"
  "take 3 inventory = [stub ''n1'' 3, stub ''n2'' 1, stub ''n3'' 4]"
  "take 5 inventory = inventory"
  by (simp_all add: inventory_def)

lemma sample_resolve:
  assumes "idFuncMap e = idFuncMap sample_env" "Nodes_Info e = Nodes_Info sample_env"
  shows "getRemoteIDMap e (map (\<lambda>i. stub i (c i)) is') ''aws_instance_id'' = (map pair is', None)"
proof -
  have "getRemoteIDMap_loop e sample_idFunc (map (\<lambda>i. stub i (c i)) is') out None
          = (out @ map pair is', None)" for out
    using assms(2)
    by (induction is' arbitrary: out)
       (simp_all add: sample_fields sample_idFunc_def sample_info_def pair_def stub_def)
  then show ?thesis using assms(1) by (simp add: getRemoteIDMap_def sample_fields)
qed

lemma sample_drainNode:
  assumes "Nodes_UpdateDrain e = Nodes_UpdateDrain sample_env"
    "Nodes_MonitorDrain e = Nodes_MonitorDrain sample_env"
  shows "drainNode e live i d = Some None"
  using assms
  by (simp add: drainNode_def monitorNodeDrain_def sample_fields monitor_range_quiet
        monitor_range_Closed info_msg_def live_def)

lemma busy_run:
  "RunPreScaleInTasks busy_env [] live (sample_req 3) = Some ([pair ''n1'', pair ''n3''], None)"
proof -
  have t: "identifyTargets busy_env 3 (PoolIdentifier (sample_req 3)) IDStrategyNewestCreateIndex
             = ([stub ''n1'' 3, stub ''n2'' 1, stub ''n3'' 4], None)"
    using sample_targets [of busy_env 3 3] take_inventory by (simp add: busy_env_def)
  have v: "validate busy_env (sample_req 3) = None" by (simp add: busy_env_def sample_fields)
  have r: "getRemoteIDMap busy_env [stub ''n1'' 3, stub ''n2'' 1, stub ''n3'' 4] ''aws_instance_id''
             = ([pair ''n1'', pair ''n2'', pair ''n3''], None)"
    using sample_resolve [of busy_env "\<lambda>i. if i = ''n1'' then 3 else if i = ''n2'' then 1 else 4"
            "[''n1'', ''n2'', ''n3'']"]
    by (simp add: busy_env_def)
  have b: "filterBusyNodes busy_env [pair ''n1'', pair ''n2'', pair ''n3'']
             = ([pair ''n1'', pair ''n3''], None)"
    by (simp add: filterBusyNodes_def busy_env_def pair_def)
  have d: "drainNodes busy_env [] live d [pair ''n1'', pair ''n3''] = Some None" for d
    by (simp add: drainNodes_def sample_drainNode busy_env_def)
  show ?thesis
    by (simp add: RunPreScaleInTasks_def v sample_req_fields t r b d)
qed

subsection \<open>The drain coordinator\<close>
















section \<open>Properties\<close>

text \<open>
  C9. Excluding the autoscaler's own node: excluding an identifier that no node of the
  list carries returns the list unchanged; a node whose identifier differs from the
  excluded one is never removed; and excluding the same identifier a second time changes
  nothing.
\<close>

theorem filterOutNodeID_idempotent:
  "(id' \<notin> ID ` set n \<longrightarrow> filterOutNodeID n id' = n)
   \<and> (\<forall>node \<in> set n. ID node \<noteq> id' \<longrightarrow> node \<in> set (filterOutNodeID n id'))
   \<and> filterOutNodeID (filterOutNodeID n id') id' = filterOutNodeID n id'"
proof -
  have absent: "id' \<notin> ID ` set n \<Longrightarrow> filter (\<lambda>node. ID node \<noteq> id') n = n"
    by (induction n) auto
  show ?thesis
    by (auto simp: filterOutNodeID_filter absent)
qed

theorem filterOutNodeID_idempotent_witness:
  "''n9'' \<notin> ID ` set inventory
   \<and> filterOutNodeID inventory ''n9'' = inventory
   \<and> stub ''n3'' 4 \<in> set inventory \<and> ID (stub ''n3'' 4) \<noteq> ''n1''
   \<and> stub ''n3'' 4 \<in> set (filterOutNodeID inventory ''n1'')
   \<and> filterOutNodeID (filterOutNodeID inventory ''n1'') ''n1'' = filterOutNodeID inventory ''n1''"
proof -
  have absent: "''n9'' \<notin> ID ` set inventory" by (simp add: inventory_def stub_def)
  have present: "stub ''n3'' 4 \<in> set inventory" by (simp add: inventory_def)
  have differs: "ID (stub ''n3'' 4) \<noteq> ''n1''" by (simp add: stub_def)
  from filterOutNodeID_idempotent [of "''n9''" inventory] absent
  have "filterOutNodeID inventory ''n9'' = inventory" by blast
  moreover from filterOutNodeID_idempotent [of "''n1''" inventory] present differs
  have "stub ''n3'' 4 \<in> set (filterOutNodeID inventory ''n1'')
        \<and> filterOutNodeID (filterOutNodeID inventory ''n1'') ''n1'' = filterOutNodeID inventory ''n1''"
    by blast
  ultimately show ?thesis using absent present differs by blast
qed

text \<open>
  C6. When the busy map has been fetched, \<open>filterBusyNodes\<close> returns, with a nil error,
  the nodes that are absent from the map or mapped to false, in their order; a node of the
  input is in the result exactly when it is not mapped to true.
\<close>

theorem filterBusyNodes_retains:
  assumes "Dms_List e = Inr nodesStatus"
  shows "filterBusyNodes e nodes =
           (filter (\<lambda>n. nodesStatus (NomadID n) = None \<or> nodesStatus (NomadID n) = Some False) nodes, None)
       \<and> (\<forall>n \<in> set nodes. (n \<in> set (fst (filterBusyNodes e nodes))) = (nodesStatus (NomadID n) \<noteq> Some True))"
proof -
  have pt: "(nodesStatus k \<noteq> Some True) = (nodesStatus k = None \<or> nodesStatus k = Some False)" for k
    by (cases "nodesStatus k") auto
  have "filterBusyNodes e nodes = (filter (\<lambda>n. nodesStatus (NomadID n) \<noteq> Some True) nodes, None)"
    using assms by (simp add: filterBusyNodes_def filterBusyNodes_loop_filter)
  then show ?thesis by (simp add: pt)
qed

theorem filterBusyNodes_retains_witness:
  "Dms_List (sample_env\<lparr>Dms_List := Inr [''n2'' \<mapsto> True, ''n3'' \<mapsto> False]\<rparr>)
     = Inr [''n2'' \<mapsto> True, ''n3'' \<mapsto> False]
   \<and> filterBusyNodes (sample_env\<lparr>Dms_List := Inr [''n2'' \<mapsto> True, ''n3'' \<mapsto> False]\<rparr>)
        [pair ''n1'', pair ''n2'', pair ''n3''] = ([pair ''n1'', pair ''n3''], None)"
proof -
  let ?st = "[''n2'' \<mapsto> True, ''n3'' \<mapsto> False]"
  let ?e = "sample_env\<lparr>Dms_List := Inr ?st\<rparr>"
  have h: "Dms_List ?e = Inr ?st" by simp
  from filterBusyNodes_retains [OF h, of "[pair ''n1'', pair ''n2'', pair ''n3'']"]
  show ?thesis by (simp add: pair_def)
qed

text \<open>
  C7. Monitoring the drain of a node. Let the stream deliver first messages \<open>pre\<close> none of
  which has level error (info, warn or any other level). If the stream is then closed,
  \<open>monitorNodeDrain\<close> returns \<open>ctx.Err()\<close>: nil when the context is live, the context's
  error when it was cancelled; the messages of \<open>pre\<close> are logged, one line each, and have
  no other effect. If instead an error message follows, \<open>monitorNodeDrain\<close> returns the
  failure built from that message at once, whatever the rest of the stream is (closed
  later or never).
\<close>

theorem monitorNodeDrain_outcome:
  assumes quiet: "\<forall>m \<in> set pre. Level m \<noteq> MonitorMsgLevelError"
  shows "(Nodes_MonitorDrain e nodeID index = deliver pre Closed \<longrightarrow>
            monitorNodeDrain e ctx nodeID index = Some (map (drain_log nodeID) pre, ctx nodeID))
       \<and> (Nodes_MonitorDrain e nodeID index = deliver pre (Recv m rest)
            \<and> Level m = MonitorMsgLevelError \<longrightarrow>
            monitorNodeDrain e ctx nodeID index =
              Some (map (drain_log nodeID) pre, Some (received_error m)))"
  using quiet
  by (simp add: monitorNodeDrain_def monitor_range_deliver monitor_range_Closed monitor_range_Error)

theorem monitorNodeDrain_outcome_witness:
  "MonitorMsgLevelError \<notin> Level ` set quiet_msgs
   \<and> monitorNodeDrain (sample_env\<lparr>Nodes_MonitorDrain := \<lambda>i index. deliver quiet_msgs Closed\<rparr>)
        live ''n1'' 7 = Some (map (drain_log ''n1'') quiet_msgs, None)
   \<and> monitorNodeDrain (sample_env\<lparr>Nodes_MonitorDrain := \<lambda>i index. deliver quiet_msgs Closed\<rparr>)
        (\<lambda>nodeID. Some (ErrorString ''context canceled'')) ''n1'' 7
       = Some (map (drain_log ''n1'') quiet_msgs, Some (ErrorString ''context canceled''))
   \<and> monitorNodeDrain
        (sample_env\<lparr>Nodes_MonitorDrain :=
           \<lambda>i index. deliver quiet_msgs (Recv (error_msg ''boom'') (repeat_msg (info_msg ''more'')))\<rparr>)
        live ''n1'' 7
       = Some (map (drain_log ''n1'') quiet_msgs,
               Some (Errorf ''received error while draining node: %s'' [ArgString ''boom'']))"
proof -
  have q: "\<forall>m \<in> set quiet_msgs. Level m \<noteq> MonitorMsgLevelError"
    by (simp add: quiet_msgs_def info_msg_def)
  let ?closed = "sample_env\<lparr>Nodes_MonitorDrain := \<lambda>i index. deliver quiet_msgs Closed\<rparr>"
  let ?failing = "sample_env\<lparr>Nodes_MonitorDrain :=
           \<lambda>i index. deliver quiet_msgs (Recv (error_msg ''boom'') (repeat_msg (info_msg ''more'')))\<rparr>"
  have a: "monitorNodeDrain ?closed live ''n1'' 7 = Some (map (drain_log ''n1'') quiet_msgs, None)"
    using monitorNodeDrain_outcome [OF q, where e = ?closed and nodeID = "''n1''" and index = 7
            and ctx = live] by (simp add: live_def)
  have b: "monitorNodeDrain ?closed (\<lambda>nodeID. Some (ErrorString ''context canceled'')) ''n1'' 7
             = Some (map (drain_log ''n1'') quiet_msgs, Some (ErrorString ''context canceled''))"
    using monitorNodeDrain_outcome [OF q, where e = ?closed and nodeID = "''n1''" and index = 7
            and ctx = "\<lambda>nodeID. Some (ErrorString ''context canceled'')"] by simp
  have c: "monitorNodeDrain ?failing live ''n1'' 7
             = Some (map (drain_log ''n1'') quiet_msgs, Some (received_error (error_msg ''boom'')))"
    using monitorNodeDrain_outcome [OF q, where e = ?failing and nodeID = "''n1''" and index = 7
            and m = "error_msg ''boom''" and rest = "repeat_msg (info_msg ''more'')"
            and ctx = live] by (simp add: error_msg_def)
  have q': "MonitorMsgLevelError \<notin> Level ` set quiet_msgs"
    by (simp add: quiet_msgs_def info_msg_def)
  show ?thesis using q' a b c by (simp add: received_error_def error_msg_def)
qed

text \<open>
  C10. Order through the pipeline. \<open>getRemoteIDMap\<close> returns either no pair at all (a
  failed run) or one pair per input node, in the order of the input nodes. The result of
  \<open>filterBusyNodes\<close> is a subsequence of its input: nothing is added or reordered. Hence
  the list returned by \<open>RunPreScaleInTasks\<close> names nodes in the order in which
  \<open>identifyTargets\<close> selected them.
\<close>

theorem order_preserved:
  "(fst (getRemoteIDMap e nodes p) = [] \<or> map NomadID (fst (getRemoteIDMap e nodes p)) = map ID nodes)
   \<and> subseq (fst (filterBusyNodes e nodeIDMap)) nodeIDMap
   \<and> (RunPreScaleInTasks e sched ctx req = Some (out, err) \<longrightarrow>
        subseq (map NomadID out)
          (map ID (fst (identifyTargets e (Num req) (PoolIdentifier req) (NodeIDStrategy req)))))"
proof (intro conjI impI)
  show "fst (getRemoteIDMap e nodes p) = [] \<or> map NomadID (fst (getRemoteIDMap e nodes p)) = map ID nodes"
    by (rule getRemoteIDMap_order)
  show "subseq (fst (filterBusyNodes e nodeIDMap)) nodeIDMap"
    by (rule filterBusyNodes_subseq)
next
  assume run: "RunPreScaleInTasks e sched ctx req = Some (out, err)"
  let ?sel = "fst (identifyTargets e (Num req) (PoolIdentifier req) (NodeIDStrategy req))"
  from run_cases [OF run] show "subseq (map NomadID out) (map ID ?sel)"
  proof (elim disjE conjE exE)
    assume "out = []"
    then show ?thesis by simp
  next
    fix nodes nodeIDMap
    assume sel: "identifyTargets e (Num req) (PoolIdentifier req) (NodeIDStrategy req) = (nodes, None)"
      and res: "getRemoteIDMap e nodes (RemoteProvider req) = (nodeIDMap, None)"
      and out: "out = fst (filterBusyNodes e nodeIDMap)" and ne: "out \<noteq> []"
    have "subseq out nodeIDMap" using out filterBusyNodes_subseq by simp
    then have a: "subseq (map NomadID out) (map NomadID nodeIDMap)" by (rule subseq_map)
    have "nodeIDMap \<noteq> []" using \<open>subseq out nodeIDMap\<close> ne by auto
    then have "map NomadID nodeIDMap = map ID nodes"
      using getRemoteIDMap_order [of e nodes "RemoteProvider req"] res by simp
    then show ?thesis using a sel by simp
  qed
qed

theorem order_preserved_witness:
  "RunPreScaleInTasks busy_env [] live (sample_req 3) = Some ([pair ''n1'', pair ''n3''], None)
   \<and> map ID (fst (identifyTargets busy_env (Num (sample_req 3)) (PoolIdentifier (sample_req 3))
                     (NodeIDStrategy (sample_req 3)))) = [''n1'', ''n2'', ''n3'']
   \<and> subseq (map NomadID [pair ''n1'', pair ''n3''])
        (map ID (fst (identifyTargets busy_env (Num (sample_req 3)) (PoolIdentifier (sample_req 3))
                        (NodeIDStrategy (sample_req 3)))))"
proof -
  have t: "identifyTargets busy_env 3 (PoolIdentifier (sample_req 3)) IDStrategyNewestCreateIndex
             = ([stub ''n1'' 3, stub ''n2'' 1, stub ''n3'' 4], None)"
    using sample_targets [of busy_env 3 3] take_inventory by (simp add: busy_env_def)
  have ids: "map ID (fst (identifyTargets busy_env (Num (sample_req 3)) (PoolIdentifier (sample_req 3))
                     (NodeIDStrategy (sample_req 3)))) = [''n1'', ''n2'', ''n3'']"
    by (simp add: sample_req_fields t stub_def)
  from order_preserved [of busy_env _ _ _ "[]" live "sample_req 3" "[pair ''n1'', pair ''n3'']" None]
    busy_run
  have "subseq (map NomadID [pair ''n1'', pair ''n3''])
        (map ID (fst (identifyTargets busy_env (Num (sample_req 3)) (PoolIdentifier (sample_req 3))
                        (NodeIDStrategy (sample_req 3)))))" by blast
  then show ?thesis using busy_run ids by blast
qed




text \<open>
  C2, as stated, fails: on the sample cluster a request for zero nodes passes validation,
  the pool is not empty, and the run returns no list and the error
  \<open>failed to identify nodes for removal\<close>.
\<close>

theorem RunPreScaleInTasks_zero_counterexample:
  "validate sample_env (sample_req 0) = None
   \<and> Num (sample_req 0) = 0
   \<and> IdentifyNodes sample_env (PoolIdentifier (sample_req 0)) inventory = Inr inventory
   \<and> RunPreScaleInTasks sample_env [] live (sample_req 0)
       = Some ([], Some (ErrorString ''failed to identify nodes for removal''))"
proof -
  have t: "identifyTargets sample_env 0 (PoolIdentifier (sample_req 0)) IDStrategyNewestCreateIndex
             = ([], None)"
    using sample_targets [of sample_env 0 0] by (simp add: take_inventory)
  show ?thesis
    by (simp add: RunPreScaleInTasks_def sample_req_fields t getRemoteIDMap_def filterBusyNodes_def
          sample_fields)
       (simp add: sample_req_def inventory_class)
qed

text \<open>
  C2, amended. A request with \<open>Num = 0\<close> always returns an empty list together with an
  error. When validation passes, the selection succeeds and the provider is known, the error
  is the one of the guard before the drain stage, \<open>failed to identify nodes for removal\<close>.
\<close>

theorem RunPreScaleInTasks_zero:
  assumes "Num req = 0"
  shows "(\<exists>err. RunPreScaleInTasks e sched ctx req = Some ([], Some err))
       \<and> (validate e req = None
           \<and> snd (identifyTargets e 0 (PoolIdentifier req) (NodeIDStrategy req)) = None
           \<and> idFuncMap e (RemoteProvider req) \<noteq> None \<longrightarrow>
           RunPreScaleInTasks e sched ctx req
             = Some ([], Some (ErrorString ''failed to identify nodes for removal'')))"
proof -
  obtain nodes terr where t: "identifyTargets e 0 (PoolIdentifier req) (NodeIDStrategy req) = (nodes, terr)"
    by (cases "identifyTargets e 0 (PoolIdentifier req) (NodeIDStrategy req)")
  have empty: "terr = None \<Longrightarrow> nodes = []"
    using identifyTargets_success [of e 0 "PoolIdentifier req" "NodeIDStrategy req" nodes] t by auto
  have b: "fst (filterBusyNodes e []) = []" by (simp add: filterBusyNodes_fst split: sum.splits)
  obtain bs berr where f: "filterBusyNodes e [] = (bs, berr)" by (cases "filterBusyNodes e []")
  with b have bs: "bs = []" by simp
  show ?thesis
    using assms t empty f bs
    by (auto simp: RunPreScaleInTasks_def getRemoteIDMap_def split: option.splits prod.splits)
qed

theorem RunPreScaleInTasks_zero_witness:
  "Num (sample_req 0) = 0
   \<and> (\<exists>err. RunPreScaleInTasks sample_env [] live (sample_req 0) = Some ([], Some err))
   \<and> validate sample_env (sample_req 0) = None
   \<and> snd (identifyTargets sample_env 0 (PoolIdentifier (sample_req 0)) (NodeIDStrategy (sample_req 0))) = None
   \<and> idFuncMap sample_env (RemoteProvider (sample_req 0)) \<noteq> None
   \<and> RunPreScaleInTasks sample_env [] live (sample_req 0)
        = Some ([], Some (ErrorString ''failed to identify nodes for removal''))"
proof -
  have n: "Num (sample_req 0) = 0" by (simp add: sample_req_fields)
  have v: "validate sample_env (sample_req 0) = None" by (simp add: sample_fields)
  have t: "snd (identifyTargets sample_env 0 (PoolIdentifier (sample_req 0)) (NodeIDStrategy (sample_req 0))) = None"
    using sample_targets [of sample_env 0 0] by (simp add: sample_req_fields)
  have p: "idFuncMap sample_env (RemoteProvider (sample_req 0)) \<noteq> None"
    by (simp add: sample_fields sample_req_fields)
  from RunPreScaleInTasks_zero [OF n, of sample_env "[]" live] v t p
  show ?thesis using n by blast
qed

text \<open>
  C4. The run at a failing busy-map lookup: \<open>filterBusyNodes\<close> returns the lookup's error
  with an empty list, \<open>RunPreScaleInTasks\<close> never reads that error, and the run ends with
  the error of the empty-list guard, \<open>failed to identify nodes for removal\<close>, in which the
  lookup's error does not occur.
\<close>

theorem oracle_failure_hidden:
  "filterBusyNodes oracle_down_env [pair ''n1'', pair ''n2'']
     = ([], Some (ErrorString ''connection refused''))
   \<and> RunPreScaleInTasks oracle_down_env [] live (sample_req 2)
       = Some ([], Some (ErrorString ''failed to identify nodes for removal''))"
proof -
  have t: "identifyTargets oracle_down_env 2 (PoolIdentifier (sample_req 2)) IDStrategyNewestCreateIndex
             = ([stub ''n1'' 3, stub ''n2'' 1], None)"
    using sample_targets [of oracle_down_env 2 2] take_inventory by (simp add: oracle_down_env_def)
  have v: "validate oracle_down_env (sample_req 2) = None"
    by (simp add: oracle_down_env_def sample_fields)
  have r: "getRemoteIDMap oracle_down_env [stub ''n1'' 3, stub ''n2'' 1] ''aws_instance_id''
             = ([pair ''n1'', pair ''n2''], None)"
    using sample_resolve [of oracle_down_env "\<lambda>i. if i = ''n1'' then 3 else 1" "[''n1'', ''n2'']"]
    by (simp add: oracle_down_env_def)
  have b: "filterBusyNodes oracle_down_env [pair ''n1'', pair ''n2'']
             = ([], Some (ErrorString ''connection refused''))"
    by (simp add: filterBusyNodes_def oracle_down_env_def)
  show ?thesis
    by (simp add: RunPreScaleInTasks_def v sample_req_fields t r b)
qed

text \<open>
  C3, as stated, fails twice on the sample inventory of five nodes. When the full record
  of \<open>n3\<close> lacks the provider attribute, extraction fails for \<open>n3\<close>, the error is
  recorded, and \<open>n3\<close> is still emitted, with an empty remote identifier: five pairs, not
  four. When the full record of \<open>n3\<close> cannot be fetched, the batch is aborted: no pair is
  returned and the error is the fetch error.
\<close>

theorem getRemoteIDMap_batch_counterexample:
  "getRemoteIDMap no_attr_env inventory ''aws_instance_id''
     = ([pair ''n1'', pair ''n2'', \<lparr>NomadID = ''n3'', RemoteID = []\<rparr>, pair ''n4'', pair ''n5''],
        Some (MultiError [ErrorString ''attribute not found'']))
   \<and> getRemoteIDMap fetch_fail_env inventory ''aws_instance_id''
     = ([], Some (ErrorString ''node not found''))"
  by (simp add: getRemoteIDMap_def no_attr_env_def fetch_fail_env_def sample_fields inventory_def
        stub_def pair_def sample_idFunc_def sample_info_def)

text \<open>
  C3, amended. For a known provider: when the full record of every node is fetched, every
  node yields a pair, in input order, whether its extraction fails or not (the pair holds
  the identifier the extraction function returned); the extraction errors are accumulated,
  in order, into a multi-error (nil when there is none), and processing goes on to the last
  node. When the fetch of a node's full record fails, after fetches that succeeded, the
  batch is aborted at that node: the result is no pair and the fetch error.
\<close>

theorem getRemoteIDMap_batch:
  assumes "idFuncMap e remoteProvider = Some idFunc"
  shows "(map (\<lambda>node. Nodes_Info e (ID node)) nodes = map Inr infos \<longrightarrow>
            getRemoteIDMap e nodes remoteProvider =
              (map2 (resolved idFunc) nodes infos,
               ErrorOrNil
                 (if failed (map (\<lambda>i. snd (idFunc i)) infos) = [] then None
                  else Some (MultiError
                         (concat (map wrapped_errors (failed (map (\<lambda>i. snd (idFunc i)) infos))))))))
       \<and> (nodes = pre @ node # rest
            \<and> map (\<lambda>node. Nodes_Info e (ID node)) pre = map Inr infos
            \<and> Nodes_Info e (ID node) = Inl err \<longrightarrow>
            getRemoteIDMap e nodes remoteProvider = ([], Some err))"
  using assms
  by (simp add: getRemoteIDMap_def getRemoteIDMap_loop_fetched getRemoteIDMap_loop_abort
        foldl_append_result)

theorem getRemoteIDMap_batch_witness:
  "idFuncMap no_attr_env ''aws_instance_id'' = Some sample_idFunc
   \<and> map (\<lambda>node. Nodes_Info no_attr_env (ID node)) inventory
       = map Inr [sample_info ''n1'', sample_info ''n2'', \<lparr>Attributes = Map.empty\<rparr>,
                  sample_info ''n4'', sample_info ''n5'']
   \<and> getRemoteIDMap no_attr_env inventory ''aws_instance_id''
       = ([pair ''n1'', pair ''n2'', \<lparr>NomadID = ''n3'', RemoteID = []\<rparr>, pair ''n4'', pair ''n5''],
          Some (MultiError [ErrorString ''attribute not found'']))
   \<and> idFuncMap fetch_fail_env ''aws_instance_id'' = Some sample_idFunc
   \<and> inventory = [stub ''n1'' 3, stub ''n2'' 1] @ stub ''n3'' 4 # [stub ''n4'' 1, stub ''n5'' 5]
   \<and> map (\<lambda>node. Nodes_Info fetch_fail_env (ID node)) [stub ''n1'' 3, stub ''n2'' 1]
       = map Inr [sample_info ''n1'', sample_info ''n2'']
   \<and> Nodes_Info fetch_fail_env (ID (stub ''n3'' 4)) = Inl (ErrorString ''node not found'')
   \<and> getRemoteIDMap fetch_fail_env inventory ''aws_instance_id''
       = ([], Some (ErrorString ''node not found''))"
proof -
  let ?infos = "[sample_info ''n1'', sample_info ''n2'', \<lparr>Attributes = Map.empty\<rparr>,
                  sample_info ''n4'', sample_info ''n5'']"
  have p1: "idFuncMap no_attr_env ''aws_instance_id'' = Some sample_idFunc"
    by (simp add: no_attr_env_def sample_fields)
  have f1: "map (\<lambda>node. Nodes_Info no_attr_env (ID node)) inventory = map Inr ?infos"
    by (simp add: no_attr_env_def inventory_def stub_def)
  have r1: "getRemoteIDMap no_attr_env inventory ''aws_instance_id''
       = ([pair ''n1'', pair ''n2'', \<lparr>NomadID = ''n3'', RemoteID = []\<rparr>, pair ''n4'', pair ''n5''],
          Some (MultiError [ErrorString ''attribute not found'']))"
    using getRemoteIDMap_batch [OF p1, where nodes = inventory and infos = ?infos] f1
    by (simp add: inventory_def stub_def resolved_def pair_def sample_idFunc_def sample_info_def)
  have p2: "idFuncMap fetch_fail_env ''aws_instance_id'' = Some sample_idFunc"
    by (simp add: fetch_fail_env_def sample_fields)
  have s2: "inventory = [stub ''n1'' 3, stub ''n2'' 1] @ stub ''n3'' 4 # [stub ''n4'' 1, stub ''n5'' 5]"
    by (simp add: inventory_def)
  have f2: "map (\<lambda>node. Nodes_Info fetch_fail_env (ID node)) [stub ''n1'' 3, stub ''n2'' 1]
       = map Inr [sample_info ''n1'', sample_info ''n2'']"
    by (simp add: fetch_fail_env_def stub_def)
  have e2: "Nodes_Info fetch_fail_env (ID (stub ''n3'' 4)) = Inl (ErrorString ''node not found'')"
    by (simp add: fetch_fail_env_def stub_def)
  have r2: "getRemoteIDMap fetch_fail_env inventory ''aws_instance_id''
       = ([], Some (ErrorString ''node not found''))"
    using getRemoteIDMap_batch [OF p2, where nodes = inventory
            and pre = "[stub ''n1'' 3, stub ''n2'' 1]" and node = "stub ''n3'' 4"
            and rest = "[stub ''n4'' 1, stub ''n5'' 5]"
            and infos = "[sample_info ''n1'', sample_info ''n2'']"
            and err = "ErrorString ''node not found''"] s2 f2 e2
    by blast
  show ?thesis using p1 f1 r1 p2 s2 f2 e2 r2 by blast
qed







end
